theory Spec2Isabelle
  imports Main "HOL-Library.Sublist"
begin

section \<open>Deep Research Agent: a shallow embedding of main.py\<close>

text \<open>
  The program is one Streamlit script. Each user interaction runs the script from the
  top, so one run starts from an empty page. The model keeps one chronological
  \<open>trace\<close> of everything a run does that is visible from outside: what it renders, which
  agent it hands to the agent runtime, which request it sends to the research service.
  The two hosted services (the Firecrawl research service and the agent runtime behind
  \<open>Runner.run\<close>) are not part of the repository; their behaviour is a parameter, the
  record \<open>world\<close>, and every theorem holds for every world.

  Python text is modelled as \<open>string\<close>, the UTF-8 byte sequence of the text. An exception
  is a value of \<open>py_exception\<close>: an instance of a class derived from Python's
  \<open>Exception\<close>, with its class name and its \<open>str()\<close>. A computation that may raise
  returns \<open>py_exception + 'a\<close>, with \<open>Inl\<close> for the raise. Signals outside
  \<open>Exception\<close> (KeyboardInterrupt, SystemExit) end the process and are not modelled.
\<close>

subsection \<open>Python values\<close>

datatype pyval =
    PNone
  | PBool bool
  | PInt int
  | PStr string
  | PList "pyval list"
  | PDict "(string \<times> pyval) list"

type_synonym pydict = "(string \<times> pyval) list"

datatype py_exception = PyException (exc_class: string) (exc_str: string)

type_synonym 'a raises = "py_exception + 'a"

definition py_bind :: "'a raises \<Rightarrow> ('a \<Rightarrow> 'b raises) \<Rightarrow> 'b raises" where
  "py_bind m f = (case m of Inl e \<Rightarrow> Inl e | Inr v \<Rightarrow> f v)"

fun type_name :: "pyval \<Rightarrow> string" where
  "type_name PNone = ''NoneType''"
| "type_name (PBool _) = ''bool''"
| "type_name (PInt _) = ''int''"
| "type_name (PStr _) = ''str''"
| "type_name (PList _) = ''list''"
| "type_name (PDict _) = ''dict''"

definition quoted :: "string \<Rightarrow> string" where
  "quoted s = [CHR 0x27] @ s @ [CHR 0x27]"

text \<open>
  \<open>v[k]\<close> for a string key \<open>k\<close>: a dict looks the key up and raises KeyError when it is
  missing (\<open>str()\<close> of a KeyError is the \<open>repr\<close> of the key); a str or a list raises
  TypeError, since their indices are integers; every other value is not subscriptable.
  A dict is an association list in which the first entry of a key is the one in force.
\<close>

fun py_getitem :: "pyval \<Rightarrow> string \<Rightarrow> pyval raises" where
  "py_getitem (PDict d) k =
     (case map_of d k of
        Some v \<Rightarrow> Inr v
      | None \<Rightarrow> Inl (PyException ''KeyError'' (quoted k)))"
| "py_getitem (PStr s) k =
     Inl (PyException ''TypeError'' (''string indices must be integers, not '' @ quoted ''str''))"
| "py_getitem (PList xs) k =
     Inl (PyException ''TypeError'' ''list indices must be integers or slices, not str'')"
| "py_getitem v k =
     Inl (PyException ''TypeError'' (quoted (type_name v) @ '' object is not subscriptable''))"

text \<open>\<open>len(v)\<close>: defined on str, list and dict; TypeError on every other value.\<close>

fun py_len :: "pyval \<Rightarrow> int raises" where
  "py_len (PStr s) = Inr (int (length s))"
| "py_len (PList xs) = Inr (int (length xs))"
| "py_len (PDict d) = Inr (int (length (remdups (map fst d))))"
| "py_len v =
     Inl (PyException ''TypeError''
            (''object of type '' @ quoted (type_name v) @ '' has no len()''))"

text \<open>The truth value of a str: every non-empty str is true, also one of blanks only.\<close>

definition py_bool_str :: "string \<Rightarrow> bool" where
  "py_bool_str s = (s \<noteq> [])"

text \<open>\<open>s.replace(old, new)\<close> for one-character \<open>old\<close> and \<open>new\<close>.\<close>

definition str_replace :: "char \<Rightarrow> char \<Rightarrow> string \<Rightarrow> string" where
  "str_replace old new s = map (\<lambda>c. if c = old then new else c) s"

subsection \<open>The trace of a script run\<close>

record research_params =
  maxDepth :: int
  timeLimit :: int
  maxUrls :: int

record tool_args =
  arg_query :: string
  arg_max_depth :: int
  arg_time_limit :: int
  arg_max_urls :: int

datatype event =
    Spinner_enter string
  | Spinner_exit string
  | St_write string
  | St_error string
  | St_warning string
  | St_button string bool
  | St_empty
  | Placeholder_markdown string
  | Expander_markdown string string
  | Download_button string string string string
  | Firecrawl_request string research_params
  | Tool_invoked tool_args
  | Agent_invoked string string
  | Agent_returned string string
  | Agent_raised string py_exception

type_synonym trace = "event list"

text \<open>
  \<open>St_button label disabled\<close> renders a button; \<open>St_empty\<close> creates the placeholder that
  \<open>Placeholder_markdown\<close> fills (each call replaces what the placeholder held);
  \<open>Expander_markdown label body\<close> is a markdown body inside an expander;
  \<open>Download_button label data file_name mime\<close> offers \<open>data\<close> for download.
\<close>

type_synonym 'a action = "trace \<Rightarrow> 'a raises \<times> trace"

text \<open>\<open>with st.spinner(msg): body\<close>. The spinner is left when the body raises, too.\<close>

definition with_spinner :: "string \<Rightarrow> 'a action \<Rightarrow> 'a action" where
  "with_spinner msg body s =
     (case body (s @ [Spinner_enter msg]) of (r, s') \<Rightarrow> (r, s' @ [Spinner_exit msg]))"

text \<open>\<open>try: body  except Exception as e: handler(e)\<close>.\<close>

definition try_except :: "'a raises \<times> trace \<Rightarrow> (py_exception \<Rightarrow> 'a action) \<Rightarrow> 'a raises \<times> trace" where
  "try_except body handler =
     (case body of
        (Inr v, s') \<Rightarrow> (Inr v, s')
      | (Inl e, s') \<Rightarrow> handler e s')"

subsection \<open>The external services\<close>

record activity =
  activity_type :: string
  activity_message :: string

text \<open>
  One call of the research service: the progress notifications it delivers to the
  callback, in order, and then its outcome, a raise or the response value.
\<close>

record service_behaviour =
  activities :: "activity list"
  outcome :: "pyval raises"

text \<open>
  One \<open>Runner.run\<close>: the runtime ends with a final output, raises, or calls the tool and
  goes on from what the tool call gave it.
\<close>

datatype agent_run =
    Final_output string
  | Run_raises py_exception
  | Tool_call tool_args "(pydict raises \<Rightarrow> agent_run)"

text \<open>
  \<open>FirecrawlApp_init key\<close> is the constructor \<open>FirecrawlApp(api_key=key)\<close>, which may raise;
  \<open>firecrawl_deep_research n q p\<close> is the service's behaviour on the request \<open>(q, p)\<close>
  when \<open>n\<close> requests were sent before it in this run; \<open>Runner_behaviour name input\<close> is
  what the runtime does with the agent \<open>name\<close> on \<open>input\<close>.
\<close>

record world =
  firecrawl_api_key :: string
  FirecrawlApp_init :: "string \<Rightarrow> py_exception option"
  firecrawl_deep_research :: "nat \<Rightarrow> string \<Rightarrow> research_params \<Rightarrow> service_behaviour"
  Runner_behaviour :: "string \<Rightarrow> string \<Rightarrow> agent_run"

fun is_request :: "event \<Rightarrow> bool" where
  "is_request (Firecrawl_request _ _) = True"
| "is_request _ = False"

definition requests_sent :: "trace \<Rightarrow> nat" where
  "requests_sent s = length (filter is_request s)"

subsection \<open>deep\_research, the research tool adapter\<close>

definition on_activity :: "activity \<Rightarrow> trace \<Rightarrow> trace" where
  "on_activity a s =
     s @ [St_write (''['' @ activity_type a @ ''] '' @ activity_message a)]"

text \<open>
  The returned dict. Its three items are evaluated in the order of the dict display:
  \<open>results['data']['finalAnalysis']\<close>, \<open>len(results['data']['sources'])\<close>,
  \<open>results['data']['sources']\<close>.
\<close>

definition success_result :: "pyval \<Rightarrow> pydict raises" where
  "success_result results =
     py_bind (py_bind (py_getitem results ''data'') (\<lambda>d. py_getitem d ''finalAnalysis''))
       (\<lambda>final_analysis.
     py_bind (py_bind (py_bind (py_getitem results ''data'') (\<lambda>d. py_getitem d ''sources'')) py_len)
       (\<lambda>sources_count.
     py_bind (py_bind (py_getitem results ''data'') (\<lambda>d. py_getitem d ''sources''))
       (\<lambda>sources.
     Inr [(''success'', PBool True),
          (''final_analysis'', final_analysis),
          (''sources_count'', PInt sources_count),
          (''sources'', sources)])))"

text \<open>The body of the \<open>try\<close> block.\<close>

definition deep_research_try ::
  "world \<Rightarrow> string \<Rightarrow> int \<Rightarrow> int \<Rightarrow> int \<Rightarrow> pydict action" where
  "deep_research_try w query max_depth time_limit max_urls s =
     (case FirecrawlApp_init w (firecrawl_api_key w) of
        Some e \<Rightarrow> (Inl e, s)
      | None \<Rightarrow>
          let params = \<lparr>maxDepth = max_depth, timeLimit = time_limit, maxUrls = max_urls\<rparr> in
          (case with_spinner ''Performing deep research...''
                  (\<lambda>s1. let b = firecrawl_deep_research w (requests_sent s1) query params
                        in (outcome b,
                            fold on_activity (activities b) (s1 @ [Firecrawl_request query params])))
                  s of
             (Inl e, s2) \<Rightarrow> (Inl e, s2)
           | (Inr results, s2) \<Rightarrow> (success_result results, s2)))"

definition failure_result :: "py_exception \<Rightarrow> pydict" where
  "failure_result e = [(''error'', PStr (exc_str e)), (''success'', PBool False)]"

definition deep_research ::
  "world \<Rightarrow> string \<Rightarrow> int \<Rightarrow> int \<Rightarrow> int \<Rightarrow> pydict action" where
  "deep_research w query max_depth time_limit max_urls s =
     try_except (deep_research_try w query max_depth time_limit max_urls s)
       (\<lambda>e s'. (Inr (failure_result e),
                 s' @ [St_error (''Deep research error: '' @ exc_str e)]))"

subsection \<open>The agents and the agent runtime\<close>

datatype tool = Deep_research_tool

record agent =
  name :: string
  instructions :: string
  tools :: "tool list"

definition research_agent :: agent where
  "research_agent =
    \<lparr>name = ''research_agent'',
     instructions =
     ''You are a research assistant that can perform deep web research on any topic.\<newline>'' @
     ''\<newline>'' @
     ''    When given a research topic or question:\<newline>'' @
     ''    1. Use the deep_research tool to gather comprehensive information\<newline>'' @
     ''       - Always use these parameters:\<newline>'' @
     ''         * max_depth: 3 (for moderate depth)\<newline>'' @
     ''         * time_limit: 180 (3 minutes)\<newline>'' @
     ''         * max_urls: 10 (sufficient sources)\<newline>'' @
     ''    2. The tool will search the web, analyze multiple sources, and provide a synthesis\<newline>'' @
     ''    3. Review the research results and organize them into a well-structured report\<newline>'' @
     ''    4. Include proper citations for all sources\<newline>'' @
     ''    5. Highlight key findings and insights\<newline>'' @
     ''    '',
     tools = [Deep_research_tool]\<rparr>"

definition elaboration_agent :: agent where
  "elaboration_agent =
    \<lparr>name = ''elaboration_agent'',
     instructions =
     ''You are an expert content enhancer specializing in research elaboration.\<newline>'' @
     ''\<newline>'' @
     ''    When given a research report:\<newline>'' @
     ''    1. Analyze the structure and content of the report\<newline>'' @
     ''    2. Enhance the report by:\<newline>'' @
     ''       - Adding more detailed explanations of complex concepts\<newline>'' @
     ''       - Including relevant examples, case studies, and real-world applications\<newline>'' @
     ''       - Expanding on key points with additional context and nuance\<newline>'' @
     ''       - Adding visual elements descriptions (charts, diagrams, infographics)\<newline>'' @
     ''       - Incorporating latest trends and future predictions\<newline>'' @
     ''       - Suggesting practical implications for different stakeholders\<newline>'' @
     ''    3. Maintain academic rigor and factual accuracy\<newline>'' @
     ''    4. Preserve the original structure while making it more comprehensive\<newline>'' @
     ''    5. Ensure all additions are relevant and valuable to the topic\<newline>'' @
     ''    '',
     tools = []\<rparr>"

text \<open>
  The runtime runs the tool only for an agent that has it among its tools; a tool call
  for an agent without the tool makes the run raise. What the tool call gave, a dict or
  a raise, goes back to the runtime.
\<close>

primrec run_steps :: "world \<Rightarrow> agent \<Rightarrow> agent_run \<Rightarrow> string action" where
  "run_steps w a (Final_output out) = (\<lambda>s. (Inr out, s @ [Agent_returned (name a) out]))"
| "run_steps w a (Run_raises e) = (\<lambda>s. (Inl e, s @ [Agent_raised (name a) e]))"
| "run_steps w a (Tool_call args k) = (\<lambda>s.
     if Deep_research_tool \<in> set (tools a) then
       (case deep_research w (arg_query args) (arg_max_depth args) (arg_time_limit args)
               (arg_max_urls args)
               (s @ [Tool_invoked args]) of
          (r, s') \<Rightarrow> run_steps w a (k r) s')
     else
       (let e = PyException ''ModelBehaviorError''
                  (''Tool deep_research not found in agent '' @ name a)
        in (Inl e, s @ [Agent_raised (name a) e])))"

definition Runner_run :: "world \<Rightarrow> agent \<Rightarrow> string \<Rightarrow> string action" where
  "Runner_run w a input s =
     run_steps w a (Runner_behaviour w (name a) input) (s @ [Agent_invoked (name a) input])"

subsection \<open>run\_research\_process, the pipeline\<close>

definition elaboration_input :: "string \<Rightarrow> string \<Rightarrow> string" where
  "elaboration_input topic initial_report =
     ''\<newline>'' @
     ''        RESEARCH TOPIC: '' @ topic @
     ''\<newline>'' @
     ''\<newline>'' @
     ''        INITIAL RESEARCH REPORT:\<newline>'' @
     ''        '' @ initial_report @
     ''\<newline>'' @
     ''\<newline>'' @
     ''        Please enhance this research report with additional information, examples, case studies,\<newline>'' @
     ''        and deeper insights while maintaining its academic rigor and factual accuracy.\<newline>'' @
     ''        ''"

definition run_research_process :: "world \<Rightarrow> string \<Rightarrow> string action" where
  "run_research_process w topic s =
     (case with_spinner ''Conducting initial research...''
             (Runner_run w research_agent topic) s of
        (Inl e, s1) \<Rightarrow> (Inl e, s1)
      | (Inr initial_report, s1) \<Rightarrow>
          with_spinner ''Enhancing the report with additional information...''
            (Runner_run w elaboration_agent (elaboration_input topic initial_report))
            (s1 @ [Expander_markdown ''View Initial Research Report'' initial_report]))"

subsection \<open>The Start Research button and its handler\<close>

text \<open>
  \<open>st.button(label, disabled=d)\<close> renders the button and returns whether this run of the
  script is the one that a click on the button started. \<open>clicked\<close> says that the user
  clicked where the button is; a button rendered disabled takes no click, so the call
  returns true only for a click on a button that is not disabled.
\<close>

definition st_button :: "string \<Rightarrow> bool \<Rightarrow> bool \<Rightarrow> trace \<Rightarrow> bool \<times> trace" where
  "st_button label disabled clicked s = (clicked \<and> \<not> disabled, s @ [St_button label disabled])"

definition report_file_name :: "string \<Rightarrow> string" where
  "report_file_name research_topic =
     str_replace (CHR '' '') (CHR ''_'') research_topic @ ''_report.md''"

definition show_report :: "string \<Rightarrow> string \<Rightarrow> trace \<Rightarrow> trace" where
  "show_report research_topic enhanced_report s =
     s @ [Placeholder_markdown ''## Enhanced Research Report'',
          Placeholder_markdown enhanced_report,
          Download_button ''Download Report'' enhanced_report
            (report_file_name research_topic) ''text/markdown'']"

text \<open>The body of the \<open>if st.button(...)\<close> statement, run when the call returned true.\<close>

definition button_pressed :: "world \<Rightarrow> string \<Rightarrow> unit action" where
  "button_pressed w research_topic s0 =
     (if \<not> py_bool_str research_topic then
        (Inr (), s0 @ [St_warning ''Please enter a research topic.''])
      else
        try_except
          (case run_research_process w research_topic (s0 @ [St_empty]) of
             (Inl e, s1) \<Rightarrow> (Inl e, s1)
           | (Inr enhanced_report, s1) \<Rightarrow>
               (Inr (), show_report research_topic enhanced_report s1))
          (\<lambda>e s'. (Inr (), s' @ [St_error (''An error occurred: '' @ exc_str e)])))"

definition start_research :: "world \<Rightarrow> string \<Rightarrow> bool \<Rightarrow> unit action" where
  "start_research w research_topic clicked s =
     (case st_button ''Start Research'' (\<not> py_bool_str research_topic) clicked s of
        (pressed, s0) \<Rightarrow>
          if pressed then button_pressed w research_topic s0 else (Inr (), s0))"

subsection \<open>The shapes of a tool result\<close>

definition dict_keys :: "pydict \<Rightarrow> string list" where
  "dict_keys d = map fst d"

fun is_str :: "pyval option \<Rightarrow> bool" where
  "is_str (Some (PStr _)) = True"
| "is_str _ = False"

definition fully_successful :: "pydict \<Rightarrow> bool" where
  "fully_successful r =
     (dict_keys r = [''success'', ''final_analysis'', ''sources_count'', ''sources''] \<and>
      map_of r ''success'' = Some (PBool True))"

definition fully_failed :: "pydict \<Rightarrow> bool" where
  "fully_failed r =
     (dict_keys r = [''error'', ''success''] \<and>
      map_of r ''success'' = Some (PBool False) \<and>
      is_str (map_of r ''error''))"

subsection \<open>Sample worlds\<close>

definition sample_response :: pyval where
  "sample_response =
     PDict [(''success'', PBool True),
            (''data'', PDict [(''finalAnalysis'', PStr ''Two sources agree.''),
                              (''sources'', PList [PDict [(''url'', PStr ''https://a.example'')],
                                                   PDict [(''url'', PStr ''https://b.example'')]])])]"

definition sample_service :: "nat \<Rightarrow> string \<Rightarrow> research_params \<Rightarrow> service_behaviour" where
  "sample_service n q p =
     \<lparr>activities = [\<lparr>activity_type = ''search'', activity_message = ''Searching''\<rparr>],
      outcome = Inr sample_response\<rparr>"

definition failing_service :: "nat \<Rightarrow> string \<Rightarrow> research_params \<Rightarrow> service_behaviour" where
  "failing_service n q p =
     \<lparr>activities = [], outcome = Inl (PyException ''TimeoutError'' ''timeout'')\<rparr>"

definition sample_runtime :: "string \<Rightarrow> string \<Rightarrow> string \<Rightarrow> agent_run" where
  "sample_runtime final nm inp =
     (if nm = ''research_agent'' then
        Tool_call \<lparr>arg_query = inp, arg_max_depth = 3, arg_time_limit = 180, arg_max_urls = 10\<rparr>
          (\<lambda>r. Final_output ''Initial report'')
      else Final_output final)"

definition sample_world :: world where
  "sample_world =
     \<lparr>firecrawl_api_key = ''fc-key'',
      FirecrawlApp_init = (\<lambda>k. None),
      firecrawl_deep_research = sample_service,
      Runner_behaviour = sample_runtime ''Enhanced report''\<rparr>"

definition failing_world :: world where
  "failing_world = sample_world\<lparr>firecrawl_deep_research := failing_service\<rparr>"

text \<open>A world whose Elaboration Agent returns \<open>final\<close>.\<close>

definition reporting_world :: "string \<Rightarrow> world" where
  "reporting_world final = sample_world\<lparr>Runner_behaviour := sample_runtime final\<rparr>"

text \<open>A world whose runtime calls the tool with parameters of its own choice.\<close>

definition offscript_runtime :: "string \<Rightarrow> string \<Rightarrow> agent_run" where
  "offscript_runtime nm inp =
     (if nm = ''research_agent'' then
        Tool_call \<lparr>arg_query = inp, arg_max_depth = 5, arg_time_limit = 60, arg_max_urls = 2\<rparr>
          (\<lambda>r. Final_output ''Initial report'')
      else Final_output ''Enhanced report'')"

definition offscript_world :: world where
  "offscript_world = sample_world\<lparr>Runner_behaviour := offscript_runtime\<rparr>"



subsection \<open>Reading a trace\<close>

text \<open>The events that a tool call leaves in the trace.\<close>

fun tool_event :: "event \<Rightarrow> bool" where
  "tool_event (Spinner_enter _) = True"
| "tool_event (Spinner_exit _) = True"
| "tool_event (St_write _) = True"
| "tool_event (St_error m) = prefix ''Deep research error: '' m"
| "tool_event (Firecrawl_request _ _) = True"
| "tool_event (Tool_invoked _) = True"
| "tool_event _ = False"

fun request_of :: "event \<Rightarrow> (string \<times> research_params) list" where
  "request_of (Firecrawl_request q p) = [(q, p)]"
| "request_of _ = []"

definition requests_of :: "trace \<Rightarrow> (string \<times> research_params) list" where
  "requests_of tr = concat (map request_of tr)"

fun tool_call_of :: "event \<Rightarrow> tool_args list" where
  "tool_call_of (Tool_invoked a) = [a]"
| "tool_call_of _ = []"

definition tool_calls_of :: "trace \<Rightarrow> tool_args list" where
  "tool_calls_of tr = concat (map tool_call_of tr)"

definition request_of_args :: "tool_args \<Rightarrow> string \<times> research_params" where
  "request_of_args a =
     (arg_query a,
      \<lparr>maxDepth = arg_max_depth a, timeLimit = arg_time_limit a, maxUrls = arg_max_urls a\<rparr>)"

definition has_fixed_parameters :: "tool_args \<Rightarrow> bool" where
  "has_fixed_parameters a =
     (arg_max_depth a = 3 \<and> arg_time_limit a = 180 \<and> arg_max_urls a = 10)"

definition fixed_parameters :: research_params where
  "fixed_parameters = \<lparr>maxDepth = 3, timeLimit = 180, maxUrls = 10\<rparr>"

text \<open>
  The requests in a trace are the tool calls in it, each with the arguments of the call,
  or there is none when the client object cannot be constructed.
\<close>

definition requests_follow_calls :: "world \<Rightarrow> trace \<Rightarrow> bool" where
  "requests_follow_calls w tr =
     (requests_of tr =
        (if FirecrawlApp_init w (firecrawl_api_key w) = None
         then map request_of_args (tool_calls_of tr) else []))"

text \<open>The event that ends a \<open>Runner.run\<close> of agent \<open>a\<close> with result \<open>r\<close>.\<close>

definition last_event :: "agent \<Rightarrow> string raises \<Rightarrow> event" where
  "last_event a r =
     (case r of Inr out \<Rightarrow> Agent_returned (name a) out | Inl e \<Rightarrow> Agent_raised (name a) e)"

fun is_elaboration_invocation :: "event \<Rightarrow> bool" where
  "is_elaboration_invocation (Agent_invoked n i) = (n = ''elaboration_agent'')"
| "is_elaboration_invocation _ = False"






text \<open>
  How a run of the handler ended, read off the end of its trace: with the report in the
  placeholder and the download offered, or with an error message.
\<close>

definition final_report :: "trace \<Rightarrow> string option" where
  "final_report tr =
     (case rev tr of
        Download_button l d f m # Placeholder_markdown r # _ \<Rightarrow> Some r
      | _ \<Rightarrow> None)"

definition final_error :: "trace \<Rightarrow> string option" where
  "final_error tr = (case rev tr of St_error m # _ \<Rightarrow> Some m | _ \<Rightarrow> None)"



section \<open>Properties\<close>

subsection \<open>The research tool adapter\<close>

lemma success_result_cases:
  "(\<exists>e. success_result v = Inl e) \<or>
   (\<exists>fa src n. success_result v =
        Inr [(''success'', PBool True), (''final_analysis'', fa),
             (''sources_count'', PInt n), (''sources'', src)] \<and> py_len src = Inr n)"
  unfolding success_result_def py_bind_def
  by (auto split: sum.splits)

lemma deep_research_try_cases:
  "\<exists>s1. (\<exists>e. deep_research_try w q d t u s = (Inl e, s1)) \<or>
        (\<exists>v. deep_research_try w q d t u s = (success_result v, s1))"
  unfolding deep_research_try_def with_spinner_def
  by (auto split: option.splits sum.splits prod.splits simp: Let_def)

lemma deep_research_cases:
  "(\<exists>e s1. deep_research_try w q d t u s = (Inl e, s1) \<and>
       deep_research w q d t u s =
         (Inr (failure_result e), s1 @ [St_error (''Deep research error: '' @ exc_str e)])) \<or>
   (\<exists>fa src n s1. deep_research w q d t u s =
         (Inr [(''success'', PBool True), (''final_analysis'', fa),
               (''sources_count'', PInt n), (''sources'', src)], s1) \<and>
       deep_research_try w q d t u s = deep_research w q d t u s \<and>
       py_len src = Inr n)"
proof -
  obtain s1 where
    "(\<exists>e. deep_research_try w q d t u s = (Inl e, s1)) \<or>
     (\<exists>v. deep_research_try w q d t u s = (success_result v, s1))"
    using deep_research_try_cases by blast
  then show ?thesis
  proof
    assume "\<exists>e. deep_research_try w q d t u s = (Inl e, s1)"
    then show ?thesis by (auto simp: deep_research_def try_except_def)
  next
    assume "\<exists>v. deep_research_try w q d t u s = (success_result v, s1)"
    then obtain v where v: "deep_research_try w q d t u s = (success_result v, s1)" ..
    from success_result_cases [of v] show ?thesis
      using v by (auto simp: deep_research_def try_except_def)
  qed
qed

text \<open>
  Claim C2. Whatever its arguments and whatever the constructor and the research service
  do, also when they raise, \<open>deep_research\<close> returns a dict and raises nothing; and when
  the body of its \<open>try\<close> block raised \<open>e\<close>, the dict has \<open>success\<close> false and
  \<open>error\<close> the text \<open>str(e)\<close>, and the error is shown on the page.
\<close>

theorem deep_research_never_raises:
  "\<exists>r s'. deep_research w q d t u s = (Inr r, s') \<and>
     (\<forall>e s1. deep_research_try w q d t u s = (Inl e, s1) \<longrightarrow>
        map_of r ''success'' = Some (PBool False) \<and>
        map_of r ''error'' = Some (PStr (exc_str e)) \<and>
        s' = s1 @ [St_error (''Deep research error: '' @ exc_str e)])"
  using deep_research_cases [of w q d t u s]
  by (auto simp: failure_result_def)

theorem deep_research_never_raises_witness:
  "\<exists>r s'. deep_research failing_world ''AI'' 3 180 10 [] = (Inr r, s') \<and>
     map_of r ''success'' = Some (PBool False) \<and>
     map_of r ''error'' = Some (PStr ''timeout'')"
proof -
  have t: "deep_research_try failing_world ''AI'' 3 180 10 [] =
      (Inl (PyException ''TimeoutError'' ''timeout''),
       [Spinner_enter ''Performing deep research...'',
        Firecrawl_request ''AI'' \<lparr>maxDepth = 3, timeLimit = 180, maxUrls = 10\<rparr>,
        Spinner_exit ''Performing deep research...''])"
    by (simp add: deep_research_try_def failing_world_def sample_world_def failing_service_def
        with_spinner_def requests_sent_def)
  from deep_research_never_raises [of failing_world "''AI''" 3 180 10 "[]"] t
  show ?thesis by auto
qed

text \<open>
  Claim C3. Every dict that \<open>deep_research\<close> returns has one of two shapes and never a
  mixture: the keys \<open>success, final_analysis, sources_count, sources\<close> with \<open>success\<close>
  true, or the keys \<open>error, success\<close> with \<open>success\<close> false and \<open>error\<close> a text.
\<close>

theorem deep_research_result_shape:
  "fst (deep_research w q d t u s) = Inr r \<Longrightarrow>
     (fully_successful r \<and> \<not> fully_failed r) \<or> (fully_failed r \<and> \<not> fully_successful r)"
  using deep_research_cases [of w q d t u s]
  by (auto simp: failure_result_def fully_successful_def fully_failed_def dict_keys_def)

theorem deep_research_result_shape_witness:
  "fst (deep_research sample_world ''AI'' 3 180 10 []) =
     Inr [(''success'', PBool True),
          (''final_analysis'', PStr ''Two sources agree.''),
          (''sources_count'', PInt 2),
          (''sources'', PList [PDict [(''url'', PStr ''https://a.example'')],
                               PDict [(''url'', PStr ''https://b.example'')]])] \<and>
   fully_successful (projr (fst (deep_research sample_world ''AI'' 3 180 10 []))) \<and>
   \<not> fully_failed (projr (fst (deep_research sample_world ''AI'' 3 180 10 []))) \<and>
   fst (deep_research failing_world ''AI'' 3 180 10 []) =
     Inr [(''error'', PStr ''timeout''), (''success'', PBool False)] \<and>
   fully_failed (projr (fst (deep_research failing_world ''AI'' 3 180 10 []))) \<and>
   \<not> fully_successful (projr (fst (deep_research failing_world ''AI'' 3 180 10 [])))"
proof -
  have v: "fst (deep_research sample_world ''AI'' 3 180 10 []) =
     Inr [(''success'', PBool True),
          (''final_analysis'', PStr ''Two sources agree.''),
          (''sources_count'', PInt 2),
          (''sources'', PList [PDict [(''url'', PStr ''https://a.example'')],
                               PDict [(''url'', PStr ''https://b.example'')]])]"
    by (simp add: deep_research_def try_except_def deep_research_try_def sample_world_def
        sample_service_def sample_response_def with_spinner_def requests_sent_def
        success_result_def py_bind_def)
  have f: "fst (deep_research failing_world ''AI'' 3 180 10 []) =
     Inr [(''error'', PStr ''timeout''), (''success'', PBool False)]"
    by (simp add: deep_research_def try_except_def deep_research_try_def failing_world_def
        sample_world_def failing_service_def with_spinner_def requests_sent_def
        failure_result_def)
  from deep_research_result_shape [OF v] v
  have "fully_successful (projr (fst (deep_research sample_world ''AI'' 3 180 10 []))) \<and>
        \<not> fully_failed (projr (fst (deep_research sample_world ''AI'' 3 180 10 [])))"
    by (auto simp: fully_failed_def dict_keys_def)
  moreover from deep_research_result_shape [OF f] f
  have "fully_failed (projr (fst (deep_research failing_world ''AI'' 3 180 10 []))) \<and>
        \<not> fully_successful (projr (fst (deep_research failing_world ''AI'' 3 180 10 [])))"
    by (auto simp: fully_successful_def dict_keys_def)
  ultimately show ?thesis using v f by simp
qed

text \<open>
  Claim C9. In every successful result of \<open>deep_research\<close> the item \<open>sources_count\<close> is
  \<open>len\<close> of the item \<open>sources\<close> of the same result: for a list, its number of elements.
\<close>

theorem deep_research_sources_count:
  "fst (deep_research w q d t u s) = Inr r \<Longrightarrow> map_of r ''success'' = Some (PBool True) \<Longrightarrow>
     \<exists>src n. map_of r ''sources'' = Some src \<and> map_of r ''sources_count'' = Some (PInt n) \<and>
       py_len src = Inr n \<and> (case src of PList xs \<Rightarrow> n = int (length xs) | _ \<Rightarrow> True)"
proof -
  assume r: "fst (deep_research w q d t u s) = Inr r"
    and ok: "map_of r ''success'' = Some (PBool True)"
  from deep_research_cases [of w q d t u s] r ok
  obtain fa src n where
    shape: "r = [(''success'', PBool True), (''final_analysis'', fa),
                 (''sources_count'', PInt n), (''sources'', src)]"
    and len: "py_len src = Inr n"
    by (auto simp: failure_result_def)
  from len have "case src of PList xs \<Rightarrow> n = int (length xs) | _ \<Rightarrow> True"
    by (cases src) auto
  with shape len show ?thesis by simp
qed

lemma sample_run:
  "deep_research sample_world q 3 180 10 [] =
     (Inr [(''success'', PBool True),
          (''final_analysis'', PStr ''Two sources agree.''),
          (''sources_count'', PInt 2),
          (''sources'', PList [PDict [(''url'', PStr ''https://a.example'')],
                               PDict [(''url'', PStr ''https://b.example'')]])],
      [Spinner_enter ''Performing deep research...'',
       Firecrawl_request q \<lparr>maxDepth = 3, timeLimit = 180, maxUrls = 10\<rparr>,
       St_write ''[search] Searching'',
       Spinner_exit ''Performing deep research...''])"
  by (simp add: deep_research_def try_except_def deep_research_try_def sample_world_def
        sample_service_def sample_response_def with_spinner_def requests_sent_def
        success_result_def py_bind_def on_activity_def)

theorem deep_research_sources_count_witness:
  "\<exists>src. map_of (projr (fst (deep_research sample_world ''AI'' 3 180 10 []))) ''sources'' = Some src \<and>
     map_of (projr (fst (deep_research sample_world ''AI'' 3 180 10 []))) ''sources_count'' = Some (PInt 2) \<and>
     py_len src = Inr 2"
proof -
  let ?r = "projr (fst (deep_research sample_world ''AI'' 3 180 10 []))"
  have a: "fst (deep_research sample_world ''AI'' 3 180 10 []) = Inr ?r"
    by (simp add: sample_run)
  have b: "map_of ?r ''success'' = Some (PBool True)" "map_of ?r ''sources_count'' = Some (PInt 2)"
    by (simp_all add: sample_run)
  from deep_research_sources_count [OF a b(1)] b(2) show ?thesis by auto
qed

lemma fold_on_activity:
  "fold on_activity acts s =
     s @ map (\<lambda>a. St_write (''['' @ activity_type a @ ''] '' @ activity_message a)) acts"
  by (induction acts arbitrary: s) (simp_all add: on_activity_def)

lemma requests_sent_append [simp]:
  "requests_sent (s @ s') = requests_sent s + requests_sent s'"
  by (simp add: requests_sent_def)

lemma deep_research_try_trace:
  "snd (deep_research_try w q d t u s) =
     (case FirecrawlApp_init w (firecrawl_api_key w) of
        Some e \<Rightarrow> s
      | None \<Rightarrow>
          s @ [Spinner_enter ''Performing deep research...'',
               Firecrawl_request q \<lparr>maxDepth = d, timeLimit = t, maxUrls = u\<rparr>] @
          map (\<lambda>a. St_write (''['' @ activity_type a @ ''] '' @ activity_message a))
            (activities (firecrawl_deep_research w (requests_sent s) q
                           \<lparr>maxDepth = d, timeLimit = t, maxUrls = u\<rparr>)) @
          [Spinner_exit ''Performing deep research...''])"
  by (simp add: deep_research_try_def with_spinner_def fold_on_activity requests_sent_def
      Let_def split: option.splits sum.splits)

lemma deep_research_trace:
  "snd (deep_research w q d t u s) =
     snd (deep_research_try w q d t u s) @
     (case fst (deep_research_try w q d t u s) of
        Inl e \<Rightarrow> [St_error (''Deep research error: '' @ exc_str e)]
      | Inr r \<Rightarrow> [])"
  by (simp add: deep_research_def try_except_def split: prod.splits sum.splits)

text \<open>
  Claim C8. \<open>deep_research\<close> does not validate its query. With the empty query it
  returns a dict of one of the two shapes of C3, whatever the other arguments; and once
  the client object is constructed, the request with the empty query goes to the service.
\<close>

theorem deep_research_empty_query:
  "\<exists>r s'. deep_research w [] d t u s = (Inr r, s') \<and>
     (fully_successful r \<or> fully_failed r) \<and>
     (FirecrawlApp_init w (firecrawl_api_key w) = None \<longrightarrow>
        Firecrawl_request [] \<lparr>maxDepth = d, timeLimit = t, maxUrls = u\<rparr> \<in> set s')"
proof -
  have req: "FirecrawlApp_init w (firecrawl_api_key w) = None \<Longrightarrow>
      Firecrawl_request [] \<lparr>maxDepth = d, timeLimit = t, maxUrls = u\<rparr>
        \<in> set (snd (deep_research w [] d t u s))"
    by (simp add: deep_research_trace deep_research_try_trace)
  from deep_research_cases [of w "[]" d t u s]
  obtain r s' where r: "deep_research w [] d t u s = (Inr r, s')"
    and "fully_successful r \<or> fully_failed r"
    by (auto simp: failure_result_def fully_successful_def fully_failed_def dict_keys_def)
  with req show ?thesis by auto
qed

theorem deep_research_empty_query_witness:
  "\<exists>r s'. deep_research sample_world [] 3 180 10 [] = (Inr r, s') \<and>
     (fully_successful r \<or> fully_failed r) \<and>
     Firecrawl_request [] \<lparr>maxDepth = 3, timeLimit = 180, maxUrls = 10\<rparr> \<in> set s'"
  using deep_research_empty_query [of sample_world 3 180 10 "[]"]
  by (simp add: sample_world_def)

subsection \<open>The trace of the pipeline\<close>

lemma requests_of_append [simp]: "requests_of (xs @ ys) = requests_of xs @ requests_of ys"
  by (simp add: requests_of_def)

lemma tool_calls_of_append [simp]: "tool_calls_of (xs @ ys) = tool_calls_of xs @ tool_calls_of ys"
  by (simp add: tool_calls_of_def)

lemma requests_of_Cons [simp]: "requests_of (x # xs) = request_of x @ requests_of xs"
  by (simp add: requests_of_def)

lemma tool_calls_of_Cons [simp]: "tool_calls_of (x # xs) = tool_call_of x @ tool_calls_of xs"
  by (simp add: tool_calls_of_def)

lemma requests_of_Nil [simp]: "requests_of [] = []"
  by (simp add: requests_of_def)

lemma tool_calls_of_Nil [simp]: "tool_calls_of [] = []"
  by (simp add: tool_calls_of_def)

lemma writes_no_requests [simp]:
  "requests_of (map (\<lambda>a. St_write (f a)) acts) = []"
  "tool_calls_of (map (\<lambda>a. St_write (f a)) acts) = []"
  by (induction acts) simp_all

text \<open>What one call of the tool appends to the trace.\<close>

lemma deep_research_events:
  "\<exists>new. snd (deep_research w q d t u s) = s @ new \<and> list_all tool_event new \<and>
     tool_calls_of new = [] \<and>
     requests_of new =
       (if FirecrawlApp_init w (firecrawl_api_key w) = None
        then [(q, \<lparr>maxDepth = d, timeLimit = t, maxUrls = u\<rparr>)] else [])"
  by (cases "FirecrawlApp_init w (firecrawl_api_key w)";
      cases "fst (deep_research_try w q d t u s)")
     (simp_all add: deep_research_trace deep_research_try_trace list_all_iff image_iff)

lemma run_steps_events:
  "\<exists>tevs. snd (run_steps w a tree s) = s @ tevs @ [last_event a (fst (run_steps w a tree s))] \<and>
     list_all tool_event tevs \<and> requests_follow_calls w tevs"
  unfolding requests_follow_calls_def
proof (induction tree arbitrary: s)
  case (Final_output out)
  show ?case by (simp add: last_event_def)
next
  case (Run_raises e)
  show ?case by (simp add: last_event_def)
next
  case (Tool_call args k)
  show ?case
  proof (cases "Deep_research_tool \<in> set (tools a)")
    case False
    then show ?thesis by (simp add: last_event_def Let_def)
  next
    case True
    let ?dr = "deep_research w (arg_query args) (arg_max_depth args) (arg_time_limit args)
                 (arg_max_urls args) (s @ [Tool_invoked args])"
    obtain new where new: "snd ?dr = (s @ [Tool_invoked args]) @ new" "list_all tool_event new"
      "tool_calls_of new = []"
      "requests_of new =
         (if FirecrawlApp_init w (firecrawl_api_key w) = None
          then [request_of_args args] else [])"
      using deep_research_events [of w "arg_query args" "arg_max_depth args" "arg_time_limit args"
          "arg_max_urls args" "s @ [Tool_invoked args]"]
      by (auto simp: request_of_args_def)
    have step: "run_steps w a (Tool_call args k) s = run_steps w a (k (fst ?dr)) (snd ?dr)"
      using True by (simp add: case_prod_unfold)
    from Tool_call.IH [of "k (fst ?dr)" "snd ?dr"]
    obtain tevs where tevs:
      "snd (run_steps w a (k (fst ?dr)) (snd ?dr)) =
         snd ?dr @ tevs @ [last_event a (fst (run_steps w a (k (fst ?dr)) (snd ?dr)))]"
      "list_all tool_event tevs"
      "requests_of tevs =
         (if FirecrawlApp_init w (firecrawl_api_key w) = None
          then map request_of_args (tool_calls_of tevs) else [])"
      by auto
    show ?thesis
      unfolding step
      by (rule exI [of _ "Tool_invoked args # new @ tevs"]) (use new tevs in simp)
  qed
qed


lemma agent_fields [simp]:
  "name research_agent = ''research_agent''"
  "name elaboration_agent = ''elaboration_agent''"
  "tools research_agent = [Deep_research_tool]"
  "tools elaboration_agent = []"
  by (simp_all add: research_agent_def elaboration_agent_def)

lemma Runner_run_events:
  "\<exists>tevs. snd (Runner_run w a inp s) =
       s @ Agent_invoked (name a) inp # tevs @ [last_event a (fst (Runner_run w a inp s))] \<and>
     list_all tool_event tevs \<and> requests_follow_calls w tevs"
  using run_steps_events [of w a "Runner_behaviour w (name a) inp" "s @ [Agent_invoked (name a) inp]"]
  by (simp add: Runner_run_def)

lemma run_research_process_events:
  "\<exists>tevs1 rest.
     snd (run_research_process w topic s) =
       s @ Spinner_enter ''Conducting initial research...'' #
           Agent_invoked ''research_agent'' topic # tevs1 @ rest \<and>
     list_all tool_event tevs1 \<and> requests_follow_calls w tevs1 \<and>
     ((\<exists>e. rest = [Agent_raised ''research_agent'' e,
                   Spinner_exit ''Conducting initial research...''] \<and>
           fst (run_research_process w topic s) = Inl e) \<or>
      (\<exists>r1 tevs2.
           rest = [Agent_returned ''research_agent'' r1,
                   Spinner_exit ''Conducting initial research...'',
                   Expander_markdown ''View Initial Research Report'' r1,
                   Spinner_enter ''Enhancing the report with additional information...'',
                   Agent_invoked ''elaboration_agent'' (elaboration_input topic r1)] @
                  tevs2 @
                  [last_event elaboration_agent (fst (run_research_process w topic s)),
                   Spinner_exit ''Enhancing the report with additional information...''] \<and>
           list_all tool_event tevs2 \<and> requests_follow_calls w tevs2))"
proof -
  let ?s1 = "s @ [Spinner_enter ''Conducting initial research...'']"
  let ?run1 = "Runner_run w research_agent topic ?s1"
  obtain tevs1 where t1:
    "snd ?run1 = ?s1 @ Agent_invoked ''research_agent'' topic # tevs1 @
        [last_event research_agent (fst ?run1)]"
    "list_all tool_event tevs1" "requests_follow_calls w tevs1"
    using Runner_run_events [of w research_agent topic ?s1]
    by auto
  show ?thesis
  proof (cases "fst ?run1")
    case (Inl e)
    have "run_research_process w topic s =
        (Inl e, snd ?run1 @ [Spinner_exit ''Conducting initial research...''])"
      using Inl by (simp add: run_research_process_def with_spinner_def case_prod_unfold)
    with t1 Inl show ?thesis
      by (intro exI [of _ tevs1]
            exI [of _ "[Agent_raised ''research_agent'' e,
                        Spinner_exit ''Conducting initial research...'']"])
         (simp add: last_event_def)
  next
    case (Inr r1)
    let ?s2 = "snd ?run1 @ [Spinner_exit ''Conducting initial research...'',
        Expander_markdown ''View Initial Research Report'' r1,
        Spinner_enter ''Enhancing the report with additional information...'']"
    let ?run2 = "Runner_run w elaboration_agent (elaboration_input topic r1) ?s2"
    have rp: "run_research_process w topic s =
        (fst ?run2, snd ?run2 @ [Spinner_exit ''Enhancing the report with additional information...''])"
      using Inr by (simp add: run_research_process_def with_spinner_def case_prod_unfold)
    obtain tevs2 where t2:
      "snd ?run2 = ?s2 @ Agent_invoked ''elaboration_agent'' (elaboration_input topic r1) # tevs2 @
          [last_event elaboration_agent (fst ?run2)]"
      "list_all tool_event tevs2" "requests_follow_calls w tevs2"
      using Runner_run_events [of w elaboration_agent "elaboration_input topic r1" ?s2]
      by auto
    show ?thesis
      apply (rule exI [of _ tevs1])
      apply (rule exI [of _ "[Agent_returned ''research_agent'' r1,
                   Spinner_exit ''Conducting initial research...'',
                   Expander_markdown ''View Initial Research Report'' r1,
                   Spinner_enter ''Enhancing the report with additional information...'',
                   Agent_invoked ''elaboration_agent'' (elaboration_input topic r1)] @
                  tevs2 @
                  [last_event elaboration_agent (fst (run_research_process w topic s)),
                   Spinner_exit ''Enhancing the report with additional information...'']"])
      using t1 t2 Inr by (simp add: rp last_event_def)
  qed
qed

lemma first_occurrence_unique:
  "xs @ x # ys = A @ y # B \<Longrightarrow> P x \<Longrightarrow> \<forall>a\<in>set A. \<not> P a \<Longrightarrow> \<forall>b\<in>set B. \<not> P b \<Longrightarrow>
     xs = A \<and> x = y \<and> ys = B"
proof (induction xs arbitrary: A)
  case Nil
  then show ?case by (cases A) auto
next
  case (Cons z zs)
  then show ?case by (cases A) auto
qed

lemma tool_event_not_invocation: "tool_event e \<Longrightarrow> \<not> is_elaboration_invocation e"
  by (cases e) simp_all

lemma elaboration_invocation:
  assumes "snd (run_research_process w topic s) =
      s @ before @ Agent_invoked ''elaboration_agent'' inp # after"
  shows "\<exists>r1 tevs1.
      before = Spinner_enter ''Conducting initial research...'' #
               Agent_invoked ''research_agent'' topic # tevs1 @
               [Agent_returned ''research_agent'' r1,
                Spinner_exit ''Conducting initial research...'',
                Expander_markdown ''View Initial Research Report'' r1,
                Spinner_enter ''Enhancing the report with additional information...''] \<and>
      list_all tool_event tevs1 \<and> inp = elaboration_input topic r1"
proof -
  from run_research_process_events [of w topic s]
  obtain tevs1 rest where ev:
    "snd (run_research_process w topic s) =
       s @ Spinner_enter ''Conducting initial research...'' #
           Agent_invoked ''research_agent'' topic # tevs1 @ rest"
    "list_all tool_event tevs1"
    and rest: "(\<exists>e. rest = [Agent_raised ''research_agent'' e,
                   Spinner_exit ''Conducting initial research...'']) \<or>
      (\<exists>r1 tevs2.
           rest = [Agent_returned ''research_agent'' r1,
                   Spinner_exit ''Conducting initial research...'',
                   Expander_markdown ''View Initial Research Report'' r1,
                   Spinner_enter ''Enhancing the report with additional information...'',
                   Agent_invoked ''elaboration_agent'' (elaboration_input topic r1)] @
                  tevs2 @
                  [last_event elaboration_agent (fst (run_research_process w topic s)),
                   Spinner_exit ''Enhancing the report with additional information...''] \<and>
           list_all tool_event tevs2)"
    by blast
  have t1: "\<forall>a\<in>set tevs1. \<not> is_elaboration_invocation a"
    using ev(2) by (auto simp: list_all_iff tool_event_not_invocation)
  from assms ev(1) have eq:
    "before @ Agent_invoked ''elaboration_agent'' inp # after =
       Spinner_enter ''Conducting initial research...'' #
           Agent_invoked ''research_agent'' topic # tevs1 @ rest"
    by simp
  from rest show ?thesis
  proof
    assume "\<exists>e. rest = [Agent_raised ''research_agent'' e,
                   Spinner_exit ''Conducting initial research...'']"
    then obtain e where "rest = [Agent_raised ''research_agent'' e,
                   Spinner_exit ''Conducting initial research...'']" ..
    with eq have "Agent_invoked ''elaboration_agent'' inp \<in>
        set (Spinner_enter ''Conducting initial research...'' #
           Agent_invoked ''research_agent'' topic # tevs1 @
           [Agent_raised ''research_agent'' e,
                   Spinner_exit ''Conducting initial research...''])"
      by (metis in_set_conv_decomp)
    with t1 have False by auto
    then show ?thesis ..
  next
    assume "\<exists>r1 tevs2.
           rest = [Agent_returned ''research_agent'' r1,
                   Spinner_exit ''Conducting initial research...'',
                   Expander_markdown ''View Initial Research Report'' r1,
                   Spinner_enter ''Enhancing the report with additional information...'',
                   Agent_invoked ''elaboration_agent'' (elaboration_input topic r1)] @
                  tevs2 @
                  [last_event elaboration_agent (fst (run_research_process w topic s)),
                   Spinner_exit ''Enhancing the report with additional information...''] \<and>
           list_all tool_event tevs2"
    then obtain r1 tevs2 where r: "rest = [Agent_returned ''research_agent'' r1,
                   Spinner_exit ''Conducting initial research...'',
                   Expander_markdown ''View Initial Research Report'' r1,
                   Spinner_enter ''Enhancing the report with additional information...'',
                   Agent_invoked ''elaboration_agent'' (elaboration_input topic r1)] @
                  tevs2 @
                  [last_event elaboration_agent (fst (run_research_process w topic s)),
                   Spinner_exit ''Enhancing the report with additional information...'']"
      and t2': "list_all tool_event tevs2" by blast
    let ?A = "Spinner_enter ''Conducting initial research...'' #
               Agent_invoked ''research_agent'' topic # tevs1 @
               [Agent_returned ''research_agent'' r1,
                Spinner_exit ''Conducting initial research...'',
                Expander_markdown ''View Initial Research Report'' r1,
                Spinner_enter ''Enhancing the report with additional information...'']"
    let ?B = "tevs2 @
                  [last_event elaboration_agent (fst (run_research_process w topic s)),
                   Spinner_exit ''Enhancing the report with additional information...'']"
    have eq': "before @ Agent_invoked ''elaboration_agent'' inp # after =
        ?A @ Agent_invoked ''elaboration_agent'' (elaboration_input topic r1) # ?B"
      using eq r by simp
    have A: "\<forall>a\<in>set ?A. \<not> is_elaboration_invocation a"
      using t1 by auto
    have B: "\<forall>b\<in>set ?B. \<not> is_elaboration_invocation b"
      using t2' by (auto simp: list_all_iff tool_event_not_invocation last_event_def
          split: sum.splits)
    have "is_elaboration_invocation (Agent_invoked ''elaboration_agent'' inp)" by simp
    from first_occurrence_unique [OF eq' this A B]
    have "before = ?A" "inp = elaboration_input topic r1" by simp_all
    with ev(2) show ?thesis by blast
  qed
qed

lemma reporting_pipeline:
  "run_research_process (reporting_world final) topic s =
     (Inr final,
      s @ [Spinner_enter ''Conducting initial research...'',
           Agent_invoked ''research_agent'' topic,
           Tool_invoked \<lparr>arg_query = topic, arg_max_depth = 3, arg_time_limit = 180,
                          arg_max_urls = 10\<rparr>,
           Spinner_enter ''Performing deep research...'',
           Firecrawl_request topic \<lparr>maxDepth = 3, timeLimit = 180, maxUrls = 10\<rparr>,
           St_write ''[search] Searching'',
           Spinner_exit ''Performing deep research...'',
           Agent_returned ''research_agent'' ''Initial report'',
           Spinner_exit ''Conducting initial research...'',
           Expander_markdown ''View Initial Research Report'' ''Initial report'',
           Spinner_enter ''Enhancing the report with additional information...'',
           Agent_invoked ''elaboration_agent'' (elaboration_input topic ''Initial report''),
           Agent_returned ''elaboration_agent'' final,
           Spinner_exit ''Enhancing the report with additional information...''])"
  by (simp add: run_research_process_def with_spinner_def Runner_run_def reporting_world_def
      sample_world_def sample_runtime_def deep_research_def try_except_def deep_research_try_def
      sample_service_def sample_response_def success_result_def py_bind_def on_activity_def)

lemma sample_world_reporting: "sample_world = reporting_world ''Enhanced report''"
  by (simp add: reporting_world_def sample_world_def)

text \<open>
  Claim C4. Wherever the Elaboration Agent is invoked in a run of the pipeline, the
  Research Agent has returned its report \<open>r\<close> before, the expander showing \<open>r\<close> is on
  the page before the elaboration stage starts, and the Elaboration Agent was not
  invoked earlier in the run.
\<close>

theorem elaboration_after_research:
  "snd (run_research_process w topic s) =
      s @ before @ Agent_invoked ''elaboration_agent'' inp # after \<Longrightarrow>
   \<exists>r pre mid.
      before = pre @ Agent_returned ''research_agent'' r # mid @
               [Expander_markdown ''View Initial Research Report'' r,
                Spinner_enter ''Enhancing the report with additional information...''] \<and>
      \<not> list_ex is_elaboration_invocation before"
proof -
  assume "snd (run_research_process w topic s) =
      s @ before @ Agent_invoked ''elaboration_agent'' inp # after"
  from elaboration_invocation [OF this]
  obtain r1 tevs1 where b: "before = Spinner_enter ''Conducting initial research...'' #
               Agent_invoked ''research_agent'' topic # tevs1 @
               [Agent_returned ''research_agent'' r1,
                Spinner_exit ''Conducting initial research...'',
                Expander_markdown ''View Initial Research Report'' r1,
                Spinner_enter ''Enhancing the report with additional information...'']"
    and t: "list_all tool_event tevs1" by blast
  have "\<not> list_ex is_elaboration_invocation before"
    using t by (auto simp: b list_ex_iff list_all_iff tool_event_not_invocation)
  moreover have "before = (Spinner_enter ''Conducting initial research...'' #
               Agent_invoked ''research_agent'' topic # tevs1) @
         Agent_returned ''research_agent'' r1 # [Spinner_exit ''Conducting initial research...''] @
         [Expander_markdown ''View Initial Research Report'' r1,
          Spinner_enter ''Enhancing the report with additional information...'']"
    by (simp add: b)
  ultimately show ?thesis by blast
qed

theorem elaboration_after_research_witness:
  "snd (run_research_process sample_world ''AI'' []) =
     [Spinner_enter ''Conducting initial research...'',
      Agent_invoked ''research_agent'' ''AI'',
      Tool_invoked \<lparr>arg_query = ''AI'', arg_max_depth = 3, arg_time_limit = 180,
                     arg_max_urls = 10\<rparr>,
      Spinner_enter ''Performing deep research...'',
      Firecrawl_request ''AI'' \<lparr>maxDepth = 3, timeLimit = 180, maxUrls = 10\<rparr>,
      St_write ''[search] Searching'',
      Spinner_exit ''Performing deep research...'',
      Agent_returned ''research_agent'' ''Initial report'',
      Spinner_exit ''Conducting initial research...'',
      Expander_markdown ''View Initial Research Report'' ''Initial report'',
      Spinner_enter ''Enhancing the report with additional information...''] @
     Agent_invoked ''elaboration_agent'' (elaboration_input ''AI'' ''Initial report'') #
     [Agent_returned ''elaboration_agent'' ''Enhanced report'',
      Spinner_exit ''Enhancing the report with additional information...''] \<and>
   (\<exists>r pre mid.
     [Spinner_enter ''Conducting initial research...'',
      Agent_invoked ''research_agent'' ''AI'',
      Tool_invoked \<lparr>arg_query = ''AI'', arg_max_depth = 3, arg_time_limit = 180,
                     arg_max_urls = 10\<rparr>,
      Spinner_enter ''Performing deep research...'',
      Firecrawl_request ''AI'' \<lparr>maxDepth = 3, timeLimit = 180, maxUrls = 10\<rparr>,
      St_write ''[search] Searching'',
      Spinner_exit ''Performing deep research...'',
      Agent_returned ''research_agent'' ''Initial report'',
      Spinner_exit ''Conducting initial research...'',
      Expander_markdown ''View Initial Research Report'' ''Initial report'',
      Spinner_enter ''Enhancing the report with additional information...''] =
     pre @ Agent_returned ''research_agent'' r # mid @
       [Expander_markdown ''View Initial Research Report'' r,
        Spinner_enter ''Enhancing the report with additional information...''])"
proof -
  have h: "snd (run_research_process sample_world ''AI'' []) =
     [] @
     [Spinner_enter ''Conducting initial research...'',
      Agent_invoked ''research_agent'' ''AI'',
      Tool_invoked \<lparr>arg_query = ''AI'', arg_max_depth = 3, arg_time_limit = 180,
                     arg_max_urls = 10\<rparr>,
      Spinner_enter ''Performing deep research...'',
      Firecrawl_request ''AI'' \<lparr>maxDepth = 3, timeLimit = 180, maxUrls = 10\<rparr>,
      St_write ''[search] Searching'',
      Spinner_exit ''Performing deep research...'',
      Agent_returned ''research_agent'' ''Initial report'',
      Spinner_exit ''Conducting initial research...'',
      Expander_markdown ''View Initial Research Report'' ''Initial report'',
      Spinner_enter ''Enhancing the report with additional information...''] @
     Agent_invoked ''elaboration_agent'' (elaboration_input ''AI'' ''Initial report'') #
     [Agent_returned ''elaboration_agent'' ''Enhanced report'',
      Spinner_exit ''Enhancing the report with additional information...'']"
    by (simp add: sample_world_reporting reporting_pipeline)
  from elaboration_after_research [OF h] h show ?thesis by auto
qed

text \<open>
  Claim C6. The input that the Elaboration Agent is invoked with is the text built from
  the topic and from the report \<open>r\<close> that the Research Agent returned; it contains \<open>r\<close>
  whole, as a contiguous piece, and it contains the topic.
\<close>

theorem elaboration_input_contains:
  "snd (run_research_process w topic s) =
      s @ before @ Agent_invoked ''elaboration_agent'' inp # after \<Longrightarrow>
   \<exists>r. Agent_returned ''research_agent'' r \<in> set before \<and>
       inp = elaboration_input topic r \<and> sublist r inp \<and> sublist topic inp"
proof -
  assume "snd (run_research_process w topic s) =
      s @ before @ Agent_invoked ''elaboration_agent'' inp # after"
  from elaboration_invocation [OF this]
  obtain r1 tevs1 where b: "before = Spinner_enter ''Conducting initial research...'' #
               Agent_invoked ''research_agent'' topic # tevs1 @
               [Agent_returned ''research_agent'' r1,
                Spinner_exit ''Conducting initial research...'',
                Expander_markdown ''View Initial Research Report'' r1,
                Spinner_enter ''Enhancing the report with additional information...'']"
    and inp: "inp = elaboration_input topic r1" by blast
  have "sublist r1 (elaboration_input topic r1)"
    unfolding elaboration_input_def sublist_def
    by (metis append.assoc)
  moreover have "sublist topic (elaboration_input topic r1)"
    unfolding elaboration_input_def sublist_def
    by (metis append.assoc)
  ultimately show ?thesis using b inp by auto
qed

theorem elaboration_input_contains_witness:
  "Agent_invoked ''elaboration_agent'' (elaboration_input ''AI'' ''Initial report'')
     \<in> set (snd (run_research_process sample_world ''AI'' [])) \<and>
   sublist ''Initial report'' (elaboration_input ''AI'' ''Initial report'') \<and>
   sublist ''AI'' (elaboration_input ''AI'' ''Initial report'')"
proof -
  have h: "snd (run_research_process sample_world ''AI'' []) =
     [] @
     [Spinner_enter ''Conducting initial research...'',
      Agent_invoked ''research_agent'' ''AI'',
      Tool_invoked \<lparr>arg_query = ''AI'', arg_max_depth = 3, arg_time_limit = 180,
                     arg_max_urls = 10\<rparr>,
      Spinner_enter ''Performing deep research...'',
      Firecrawl_request ''AI'' \<lparr>maxDepth = 3, timeLimit = 180, maxUrls = 10\<rparr>,
      St_write ''[search] Searching'',
      Spinner_exit ''Performing deep research...'',
      Agent_returned ''research_agent'' ''Initial report'',
      Spinner_exit ''Conducting initial research...'',
      Expander_markdown ''View Initial Research Report'' ''Initial report'',
      Spinner_enter ''Enhancing the report with additional information...''] @
     Agent_invoked ''elaboration_agent'' (elaboration_input ''AI'' ''Initial report'') #
     [Agent_returned ''elaboration_agent'' ''Enhanced report'',
      Spinner_exit ''Enhancing the report with additional information...'']"
    by (simp add: sample_world_reporting reporting_pipeline)
  from elaboration_input_contains [OF h]
  have "sublist ''Initial report'' (elaboration_input ''AI'' ''Initial report'') \<and>
        sublist ''AI'' (elaboration_input ''AI'' ''Initial report'')"
    by auto
  moreover have "Agent_invoked ''elaboration_agent'' (elaboration_input ''AI'' ''Initial report'')
     \<in> set (snd (run_research_process sample_world ''AI'' []))"
    by (simp add: sample_world_reporting reporting_pipeline)
  ultimately show ?thesis by simp
qed

subsection \<open>The button handler\<close>

lemma start_research_run:
  "topic \<noteq> [] \<Longrightarrow>
   start_research w topic True s =
     (case run_research_process w topic (s @ [St_button ''Start Research'' False, St_empty]) of
        (Inl e, s1) \<Rightarrow> (Inr (), s1 @ [St_error (''An error occurred: '' @ exc_str e)])
      | (Inr enhanced_report, s1) \<Rightarrow> (Inr (), show_report topic enhanced_report s1))"
  by (simp add: start_research_def st_button_def button_pressed_def py_bool_str_def
      try_except_def split: prod.splits sum.splits)

lemma start_research_idle:
  "topic = [] \<or> \<not> clicked \<Longrightarrow>
   start_research w topic clicked s = (Inr (), s @ [St_button ''Start Research'' (topic = [])])"
  by (auto simp: start_research_def st_button_def py_bool_str_def)

lemma final_report_show [simp]: "final_report (show_report topic r s) = Some r"
  by (simp add: final_report_def show_report_def)

lemma final_error_show [simp]: "final_error (show_report topic r s) = None"
  by (simp add: final_error_def show_report_def)

lemma final_report_error [simp]: "final_report (s @ [St_error m]) = None"
  by (simp add: final_report_def)

lemma final_error_error [simp]: "final_error (s @ [St_error m]) = Some m"
  by (simp add: final_error_def)











lemma requests_follow_calls_append:
  "requests_follow_calls w xs \<Longrightarrow> requests_follow_calls w ys \<Longrightarrow>
     requests_follow_calls w (xs @ ys)"
  by (simp add: requests_follow_calls_def)

lemma requests_follow_calls_quiet:
  "request_of e = [] \<Longrightarrow> tool_call_of e = [] \<Longrightarrow> requests_follow_calls w xs \<Longrightarrow>
     requests_follow_calls w (e # xs)"
  by (simp add: requests_follow_calls_def)

lemma requests_follow_calls_Nil [simp]: "requests_follow_calls w []"
  by (simp add: requests_follow_calls_def)

lemma pipeline_requests:
  "requests_follow_calls w s \<Longrightarrow> requests_follow_calls w (snd (run_research_process w topic s))"
proof -
  assume s: "requests_follow_calls w s"
  from run_research_process_events [of w topic s]
  obtain tevs1 rest where ev:
    "snd (run_research_process w topic s) =
       s @ Spinner_enter ''Conducting initial research...'' #
           Agent_invoked ''research_agent'' topic # tevs1 @ rest"
    "requests_follow_calls w tevs1"
    and rest: "(\<exists>e. rest = [Agent_raised ''research_agent'' e,
                   Spinner_exit ''Conducting initial research...'']) \<or>
      (\<exists>r1 tevs2.
           rest = [Agent_returned ''research_agent'' r1,
                   Spinner_exit ''Conducting initial research...'',
                   Expander_markdown ''View Initial Research Report'' r1,
                   Spinner_enter ''Enhancing the report with additional information...'',
                   Agent_invoked ''elaboration_agent'' (elaboration_input topic r1)] @
                  tevs2 @
                  [last_event elaboration_agent (fst (run_research_process w topic s)),
                   Spinner_exit ''Enhancing the report with additional information...''] \<and>
           requests_follow_calls w tevs2)"
    by blast
  have "requests_follow_calls w rest"
    using rest
    by (auto simp: last_event_def split: sum.splits
        intro!: requests_follow_calls_quiet requests_follow_calls_append)
  with s ev show ?thesis
    by (auto intro!: requests_follow_calls_quiet requests_follow_calls_append)
qed

text \<open>
  Claim C5, as the code has it. The adapter does not fix its parameters: every request
  that a run sends to the research service carries the query and the three parameters
  of the tool call that caused it, in the order of the calls (and no request is sent
  when the client object cannot be constructed). So the service receives
  \<open>maxDepth = 3, timeLimit = 180, maxUrls = 10\<close> in every request of a run in which the
  agent runtime made every tool call with \<open>3, 180, 10\<close>, as the Research Agent's
  instructions ask, whatever the topic.
\<close>

theorem requests_carry_tool_arguments:
  "requests_follow_calls w (snd (start_research w topic clicked [])) \<and>
   (list_all has_fixed_parameters (tool_calls_of (snd (start_research w topic clicked []))) \<longrightarrow>
    list_all (\<lambda>qp. snd qp = fixed_parameters)
      (requests_of (snd (start_research w topic clicked []))))"
proof -
  let ?tr = "snd (start_research w topic clicked [])"
  have f: "requests_follow_calls w ?tr"
  proof (cases "topic = [] \<or> \<not> clicked")
    case True
    then show ?thesis
      using start_research_idle [of topic clicked w "[]"]
      by (simp add: requests_follow_calls_def)
  next
    case False
    then have t: "topic \<noteq> []" and c: clicked by auto
    have "requests_follow_calls w [St_button ''Start Research'' False, St_empty]"
      by (simp add: requests_follow_calls_def)
    from pipeline_requests [OF this, of topic]
    show ?thesis
      using t c
      by (auto simp: start_research_run show_report_def split: prod.splits sum.splits
          intro!: requests_follow_calls_append requests_follow_calls_quiet)
  qed
  moreover have "list_all has_fixed_parameters (tool_calls_of ?tr) \<longrightarrow>
    list_all (\<lambda>qp. snd qp = fixed_parameters) (requests_of ?tr)"
    using f
    by (auto simp: requests_follow_calls_def list_all_iff has_fixed_parameters_def
        fixed_parameters_def request_of_args_def split: if_splits)
  ultimately show ?thesis by simp
qed

lemma offscript_pipeline:
  "run_research_process offscript_world topic s =
     (Inr ''Enhanced report'',
      s @ [Spinner_enter ''Conducting initial research...'',
           Agent_invoked ''research_agent'' topic,
           Tool_invoked \<lparr>arg_query = topic, arg_max_depth = 5, arg_time_limit = 60,
                          arg_max_urls = 2\<rparr>,
           Spinner_enter ''Performing deep research...'',
           Firecrawl_request topic \<lparr>maxDepth = 5, timeLimit = 60, maxUrls = 2\<rparr>,
           St_write ''[search] Searching'',
           Spinner_exit ''Performing deep research...'',
           Agent_returned ''research_agent'' ''Initial report'',
           Spinner_exit ''Conducting initial research...'',
           Expander_markdown ''View Initial Research Report'' ''Initial report'',
           Spinner_enter ''Enhancing the report with additional information...'',
           Agent_invoked ''elaboration_agent'' (elaboration_input topic ''Initial report''),
           Agent_returned ''elaboration_agent'' ''Enhanced report'',
           Spinner_exit ''Enhancing the report with additional information...''])"
  by (simp add: run_research_process_def with_spinner_def Runner_run_def offscript_world_def
      sample_world_def offscript_runtime_def deep_research_def try_except_def deep_research_try_def
      sample_service_def sample_response_def success_result_def py_bind_def on_activity_def)

text \<open>
  The parameters are the runtime's choice: a runtime that calls the tool with
  \<open>5, 60, 2\<close> has them passed on to the service unchanged.
\<close>

theorem constant_parameters_counterexample:
  "tool_calls_of (snd (start_research offscript_world ''AI'' True [])) =
     [\<lparr>arg_query = ''AI'', arg_max_depth = 5, arg_time_limit = 60, arg_max_urls = 2\<rparr>] \<and>
   requests_of (snd (start_research offscript_world ''AI'' True [])) =
     [(''AI'', \<lparr>maxDepth = 5, timeLimit = 60, maxUrls = 2\<rparr>)] \<and>
   \<not> list_all has_fixed_parameters
       (tool_calls_of (snd (start_research offscript_world ''AI'' True [])))"
  by (simp add: start_research_run offscript_pipeline show_report_def has_fixed_parameters_def)

theorem requests_carry_tool_arguments_witness:
  "tool_calls_of (snd (start_research sample_world ''AI'' True [])) =
     [\<lparr>arg_query = ''AI'', arg_max_depth = 3, arg_time_limit = 180, arg_max_urls = 10\<rparr>] \<and>
   list_all (\<lambda>qp. snd qp = fixed_parameters)
     (requests_of (snd (start_research sample_world ''AI'' True [])))"
proof -
  have c: "tool_calls_of (snd (start_research sample_world ''AI'' True [])) =
     [\<lparr>arg_query = ''AI'', arg_max_depth = 3, arg_time_limit = 180, arg_max_urls = 10\<rparr>]"
    by (simp add: start_research_run sample_world_reporting reporting_pipeline show_report_def)
  then have "list_all has_fixed_parameters
      (tool_calls_of (snd (start_research sample_world ''AI'' True [])))"
    by (simp add: has_fixed_parameters_def)
  with requests_carry_tool_arguments [of sample_world "''AI''" True] c
  show ?thesis by simp
qed



text \<open>
  The inner check of the handler is real code: run with the empty topic, the body of the
  \<open>if\<close> statement shows the warning and starts nothing. And the button call returns
  true exactly for a click with a topic that is not empty, since the code passes
  \<open>disabled=not research_topic\<close>; with a button that is never disabled, a click would
  get through with the empty topic.
\<close>

lemma button_pressed_empty_topic:
  "button_pressed w [] s0 = (Inr (), s0 @ [St_warning ''Please enter a research topic.''])"
  by (simp add: button_pressed_def py_bool_str_def)

lemma st_button_gate:
  "fst (st_button ''Start Research'' (\<not> py_bool_str topic) clicked s) = (clicked \<and> topic \<noteq> [])"
  "fst (st_button ''Start Research'' False clicked s) = clicked"
  by (simp_all add: st_button_def py_bool_str_def)

lemma never_disabled_button_warns:
  "(case st_button ''Start Research'' False True [] of
      (pressed, s0) \<Rightarrow> if pressed then button_pressed w [] s0 else (Inr (), s0)) =
   (Inr (), [St_button ''Start Research'' False,
             St_warning ''Please enter a research topic.''])"
  by (simp add: st_button_def button_pressed_empty_topic)



end
